theory Spec2Isabelle
  imports Main "HOL-Library.Word" "HOL-Library.Sublist"
begin

section \<open>JavaScript strings\<close>

text \<open>
  A JavaScript string is a sequence of 16-bit code units. String literals of the source
  are written \<open>js ''...''\<close>; a code unit outside ASCII is written as its number.
\<close>

type_synonym jschar = "16 word"
type_synonym jsstring = "jschar list"

definition js :: "string \<Rightarrow> jsstring" where
  "js s = map of_char s"

text \<open>
  \<open>String.prototype.trim\<close> removes WhiteSpace and LineTerminator code units from both
  ends: TAB, VT, FF, SP, NBSP, ZWNBSP, the other space separators (category Zs), and
  LF, CR, LS, PS.
\<close>

definition is_ws :: "jschar \<Rightarrow> bool" where
  "is_ws c \<longleftrightarrow>
     c = 0x09 \<or> c = 0x0A \<or> c = 0x0B \<or> c = 0x0C \<or> c = 0x0D \<or> c = 0x20 \<or> c = 0xA0 \<or>
     c = 0x1680 \<or> (0x2000 \<le> c \<and> c \<le> 0x200A) \<or> c = 0x2028 \<or> c = 0x2029 \<or>
     c = 0x202F \<or> c = 0x205F \<or> c = 0x3000 \<or> c = 0xFEFF"

definition trim :: "jsstring \<Rightarrow> jsstring" where
  "trim s = rev (dropWhile is_ws (rev (dropWhile is_ws s)))"

text \<open>
  The regular expressions of the source never match a line terminator with \<open>.\<close>.
\<close>

definition is_line_terminator :: "jschar \<Rightarrow> bool" where
  "is_line_terminator c \<longleftrightarrow> c = 0x0A \<or> c = 0x0D \<or> c = 0x2028 \<or> c = 0x2029"

section \<open>Inferring the document key from the page path\<close>

text \<open>
  \<^verbatim>\<open>
  function inferKeyFromPath() {
    try {
      const p = location.pathname.split('/').pop() || '';
      const base = p.replace(/\.html$/i, '') || '';
      return base.replace(/^series-/, '').replace(/^page-/, '');
    } catch (e) { return ''; }
  }
  \<close>
  \<open>split_on\<close> is \<open>split\<close> with a one-character separator (it never returns the empty
  array), \<open>pop\<close> returns the last element, or \<open>undefined\<close> (\<open>None\<close>) on the empty array.
\<close>

fun split_on :: "'a \<Rightarrow> 'a list \<Rightarrow> 'a list list" where
  "split_on sep [] = [[]]"
| "split_on sep (c # cs) =
     (if c = sep then [] # split_on sep cs
      else (case split_on sep cs of
              seg # segs \<Rightarrow> (c # seg) # segs
            | [] \<Rightarrow> [[c]]))"

definition pop :: "'a list \<Rightarrow> 'a option" where
  "pop xs = (if xs = [] then None else Some (last xs))"

text \<open>\<open>x || ''\<close> for \<open>x\<close> a string or \<open>undefined\<close>: the only falsy string is \<open>''\<close> itself.\<close>

definition or_empty :: "jsstring option \<Rightarrow> jsstring" where
  "or_empty x = (case x of None \<Rightarrow> [] | Some s \<Rightarrow> s)"

text \<open>
  Under the \<open>i\<close> flag a code unit matches an ASCII pattern letter when both have the same
  upper-case form; a code unit outside ASCII never canonicalises to an ASCII one, so
  upper-casing the ASCII letters alone decides the match against \<open>.html\<close>.
\<close>

definition ascii_upper :: "jschar \<Rightarrow> jschar" where
  "ascii_upper c = (if 0x61 \<le> c \<and> c \<le> 0x7A then c - 0x20 else c)"

definition matches_html_end :: "jsstring \<Rightarrow> bool" where
  "matches_html_end r \<longleftrightarrow> map ascii_upper r = js ''.HTML''"

text \<open>
  \<open>p.replace(/\.html$/i, '')\<close>: the matcher tries the start positions from the left; at a
  position the pattern matches when exactly the five code units of the suffix remain.
  The first match is replaced by the empty string.
\<close>

fun replace_html_end :: "jsstring \<Rightarrow> jsstring" where
  "replace_html_end [] = []"
| "replace_html_end (c # cs) =
     (if matches_html_end (c # cs) then [] else c # replace_html_end cs)"

text \<open>\<open>s.replace(/^lit/, '')\<close> for a literal \<open>lit\<close>: anchored at the start, one attempt.\<close>

definition replace_start :: "jsstring \<Rightarrow> jsstring \<Rightarrow> jsstring" where
  "replace_start lit s = (if prefix lit s then drop (length lit) s else s)"

definition inferKeyFromPath :: "jsstring \<Rightarrow> jsstring" where
  "inferKeyFromPath pathname =
     (let p = or_empty (pop (split_on 0x2F pathname));
          base = or_empty (Some (replace_html_end p))
      in replace_start (js ''page-'') (replace_start (js ''series-'') base))"

section \<open>Values of a JSON error body\<close>

text \<open>
  What \<open>res.json()\<close> can resolve to. A number is kept as the two things the handler
  can observe of it, whether it is truthy (not zero) and its string conversion; its
  floating-point value is not modelled. An object is its list of members in the order
  of the text, where a later duplicate of a key wins.
\<close>

datatype json =
    JNull
  | JBool bool
  | JNum bool jsstring
  | JStr jsstring
  | JArr "json list"
  | JObj "(jsstring \<times> json) list"

datatype js_error = TypeError | URIError | FetchError | BlobError

fun truthy :: "json \<Rightarrow> bool" where
  "truthy JNull = False"
| "truthy (JBool b) = b"
| "truthy (JNum t shown) = t"
| "truthy (JStr s) = (s \<noteq> [])"
| "truthy (JArr xs) = True"
| "truthy (JObj fs) = True"

text \<open>
  \<open>errJson.message\<close>: reading a property of \<open>null\<close> throws a TypeError; an object
  yields its own member or \<open>undefined\<close> (\<open>None\<close>); arrays and primitives have no
  property of that name.
\<close>

definition get_message :: "json \<Rightarrow> js_error + json option" where
  "get_message v =
     (case v of
        JNull \<Rightarrow> Inl TypeError
      | JObj fs \<Rightarrow> Inr (map_of (rev fs) (js ''message''))
      | _ \<Rightarrow> Inr None)"

text \<open>\<open>a || b\<close> where \<open>a\<close> may be \<open>undefined\<close>.\<close>

definition or_else :: "json option \<Rightarrow> json \<Rightarrow> json" where
  "or_else a b = (case a of None \<Rightarrow> b | Some v \<Rightarrow> if truthy v then v else b)"

text \<open>
  The string conversion that \<open>'Error: ' + x\<close> applies to \<open>x\<close>. An array is joined with
  commas, \<open>null\<close> elements giving the empty string. A plain object gives
  \<open>[object Object]\<close>, unless it has a member \<open>toString\<close> of its own: that member
  shadows the inherited method and is not callable, and the conversion throws a
  TypeError.
\<close>

fun join_comma :: "(js_error + jsstring) list \<Rightarrow> js_error + jsstring" where
  "join_comma [] = Inr []"
| "join_comma [x] = x"
| "join_comma (x # y # ys) =
     (case x of
        Inl err \<Rightarrow> Inl err
      | Inr a \<Rightarrow> (case join_comma (y # ys) of
                    Inl err \<Rightarrow> Inl err
                  | Inr b \<Rightarrow> Inr (a @ 0x2C # b)))"

fun to_string :: "json \<Rightarrow> js_error + jsstring" where
  "to_string JNull = Inr (js ''null'')"
| "to_string (JBool b) = Inr (if b then js ''true'' else js ''false'')"
| "to_string (JNum t shown) = Inr shown"
| "to_string (JStr s) = Inr s"
| "to_string (JArr xs) =
     join_comma (map (\<lambda>x. if x = JNull then Inr [] else to_string x) xs)"
| "to_string (JObj fs) =
     (if map_of fs (js ''toString'') = None then Inr (js ''[object Object]'')
      else Inl TypeError)"

section \<open>The file name of a Content-Disposition header\<close>

text \<open>
  \<^verbatim>\<open>const m = cd.match(/filename\*=UTF-8''(.+)|filename="?(.+?)"?$/);\<close>

  The matcher tries the start positions from the left, and at each position the first
  alternative before the second. \<open>match_ext\<close> is the first alternative at a position:
  the literal, then the longest run of at least one code unit that is not a line
  terminator. \<open>match_plain\<close> is the second: the literal, an optional quote taken
  greedily, the shortest run of at least one such code unit after which only an
  optional quote and the end of the input remain; when nothing matches after the
  quote was taken, the quote is given back and becomes part of the run.
\<close>

definition ext_literal :: jsstring where
  "ext_literal = js ''filename*=UTF-8'' @ [0x27, 0x27]"

definition match_ext :: "jsstring \<Rightarrow> jsstring option" where
  "match_ext r =
     (if prefix ext_literal r
      then (let cap = takeWhile (\<lambda>c. \<not> is_line_terminator c) (drop (length ext_literal) r)
            in if cap = [] then None else Some cap)
      else None)"

fun lazy_from :: "jsstring \<Rightarrow> jsstring \<Rightarrow> jsstring option" where
  "lazy_from acc [] = Some acc"
| "lazy_from acc (c # cs) =
     (if c = 0x22 \<and> cs = [] then Some acc
      else if is_line_terminator c then None
      else lazy_from (acc @ [c]) cs)"

definition lazy_to_end :: "jsstring \<Rightarrow> jsstring option" where
  "lazy_to_end r =
     (case r of
        [] \<Rightarrow> None
      | c # cs \<Rightarrow> if is_line_terminator c then None else lazy_from [c] cs)"

definition match_plain :: "jsstring \<Rightarrow> jsstring option" where
  "match_plain r =
     (if prefix (js ''filename='') r
      then (let r0 = drop (length (js ''filename='')) r
            in case r0 of
                 [] \<Rightarrow> None
               | q # r1 \<Rightarrow>
                   if q = 0x22
                   then (case lazy_to_end r1 of
                           Some cap \<Rightarrow> Some cap
                         | None \<Rightarrow> lazy_to_end r0)
                   else lazy_to_end r0)
      else None)"

text \<open>
  \<open>match_filename cd\<close> is \<open>m[1] || m[2]\<close> of the first match, and \<open>None\<close> when \<open>m\<close> is
  \<open>null\<close>. Both captures are non-empty when they take part in a match.
\<close>

fun match_filename :: "jsstring \<Rightarrow> jsstring option" where
  "match_filename [] = None"
| "match_filename (c # cs) =
     (case match_ext (c # cs) of
        Some cap \<Rightarrow> Some cap
      | None \<Rightarrow> (case match_plain (c # cs) of
                   Some cap \<Rightarrow> Some cap
                 | None \<Rightarrow> match_filename cs))"

section \<open>decodeURIComponent\<close>

text \<open>
  Every \<open>%XX\<close> escape is decoded. An escape below \<open>0x80\<close> is one code unit; a larger
  lead octet announces a UTF-8 sequence of two to four escaped octets, which must be a
  valid encoding of a code point (no overlong form, no surrogate, at most
  \<open>0x10FFFF\<close>) and is emitted in UTF-16. Anything else throws a URIError.
\<close>

definition hex_digit :: "jschar \<Rightarrow> nat option" where
  "hex_digit c =
     (if 0x30 \<le> c \<and> c \<le> 0x39 then Some (unat c - 0x30)
      else if 0x41 \<le> c \<and> c \<le> 0x46 then Some (unat c - 0x37)
      else if 0x61 \<le> c \<and> c \<le> 0x66 then Some (unat c - 0x57)
      else None)"

definition hex_octet :: "jschar \<Rightarrow> jschar \<Rightarrow> nat option" where
  "hex_octet h1 h2 =
     (case hex_digit h1 of
        None \<Rightarrow> None
      | Some a \<Rightarrow> (case hex_digit h2 of None \<Rightarrow> None | Some b \<Rightarrow> Some (16 * a + b)))"

definition leading_ones :: "nat \<Rightarrow> nat" where
  "leading_ones b =
     (if b < 0x80 then 0 else if b < 0xC0 then 1 else if b < 0xE0 then 2
      else if b < 0xF0 then 3 else if b < 0xF8 then 4 else 5)"

definition utf8_codepoint :: "nat list \<Rightarrow> nat option" where
  "utf8_codepoint octs =
     (case octs of
        [] \<Rightarrow> None
      | b # conts \<Rightarrow>
          (let n = length octs;
               lead = (if n = 2 then b - 0xC0 else if n = 3 then b - 0xE0 else b - 0xF0);
               cp = foldl (\<lambda>acc c. acc * 64 + (c - 0x80)) lead conts;
               lowest = (if n = 2 then 0x80 else if n = 3 then 0x800 else 0x10000)
           in if list_all (\<lambda>c. 0x80 \<le> c \<and> c < 0xC0) conts \<and> lowest \<le> cp \<and> cp \<le> 0x10FFFF
                 \<and> \<not> (0xD800 \<le> cp \<and> cp \<le> 0xDFFF)
              then Some cp else None))"

definition utf16_encode :: "nat \<Rightarrow> jsstring" where
  "utf16_encode cp =
     (if cp < 0x10000 then [of_nat cp]
      else [of_nat (0xD800 + (cp - 0x10000) div 0x400),
            of_nat (0xDC00 + (cp - 0x10000) mod 0x400)])"

definition emit :: "jsstring \<Rightarrow> js_error + jsstring \<Rightarrow> js_error + jsstring" where
  "emit u r = (case r of Inl err \<Rightarrow> Inl err | Inr t \<Rightarrow> Inr (u @ t))"

text \<open>
  \<open>decode octs k s\<close>: \<open>k\<close> is the number of continuation octets still due for the
  sequence begun with \<open>octs\<close>; outside a sequence \<open>k = 0\<close>.
\<close>

fun decode :: "nat list \<Rightarrow> nat \<Rightarrow> jsstring \<Rightarrow> js_error + jsstring" where
  "decode octs 0 [] = Inr []"
| "decode octs (Suc k) [] = Inl URIError"
| "decode octs 0 (c # cs) =
     (if c \<noteq> 0x25 then emit [c] (decode [] 0 cs)
      else (case cs of
              h1 # h2 # rest \<Rightarrow>
                (case hex_octet h1 h2 of
                   None \<Rightarrow> Inl URIError
                 | Some b \<Rightarrow>
                     if b < 0x80 then emit [of_nat b] (decode [] 0 rest)
                     else if leading_ones b = 1 \<or> 4 < leading_ones b then Inl URIError
                     else decode [b] (leading_ones b - 1) rest)
            | _ \<Rightarrow> Inl URIError))"
| "decode octs (Suc k) (c # cs) =
     (if c \<noteq> 0x25 then Inl URIError
      else (case cs of
              h1 # h2 # rest \<Rightarrow>
                (case hex_octet h1 h2 of
                   None \<Rightarrow> Inl URIError
                 | Some b \<Rightarrow>
                     if k = 0
                     then (case utf8_codepoint (octs @ [b]) of
                             None \<Rightarrow> Inl URIError
                           | Some cp \<Rightarrow> emit (utf16_encode cp) (decode [] 0 rest))
                     else decode (octs @ [b]) k rest)
            | _ \<Rightarrow> Inl URIError))"

definition decodeURIComponent :: "jsstring \<Rightarrow> js_error + jsstring" where
  "decodeURIComponent s = decode [] 0 s"

section \<open>The page and the environment of one submission\<close>

text \<open>
  The part of the DOM the handler reads and writes, with the effects it has on the
  outside kept as logs:
  \<^item> \<open>formMsg\<close>: \<open>textContent\<close> and \<open>style.color\<close> of \<open>#form-msg\<close>, \<open>None\<close> when the
    page has no such element (\<open>init\<close> does not require it);
  \<^item> \<open>submitBtn\<close>: the \<open>disabled\<close> flag of the first \<open>button[type="submit"]\<close> of the
    form, \<open>None\<close> when \<open>querySelector\<close> finds none;
  \<^item> \<open>data_pdf\<close>, \<open>data_fallbackName\<close>: \<open>dataset.pdf\<close> and \<open>dataset.fallbackName\<close> of
    \<open>#download-btn\<close>, \<open>None\<close> when the attribute is absent (\<open>undefined\<close>);
  \<^item> \<open>form_entries\<close>: the entry list \<open>new FormData(form)\<close> builds from the current
    values of the controls, \<open>form_defaults\<close> the one of their default values, to which
    \<open>form.reset()\<close> returns;
  \<^item> \<open>requests\<close>: the calls of \<open>fetch\<close>; \<open>downloads\<close>: the anchors clicked, each with
    its \<open>download\<close> name and the blob behind its object URL; \<open>timers\<close>: the calls of
    \<open>setTimeout\<close>.
\<close>

datatype entry = EString jsstring | EFile jsstring

type_synonym blob = "8 word list"

record payload =
  name :: jsstring
  email :: jsstring
  mobile :: jsstring
  pdf :: jsstring

record request =
  url :: jsstring
  http_method :: jsstring
  content_type :: jsstring
  body :: payload

datatype callback = CloseModal

record dom =
  formMsg :: "(jsstring \<times> jsstring) option"
  submitBtn :: "bool option"
  data_pdf :: "jsstring option"
  data_fallbackName :: "jsstring option"
  modal_hidden :: bool
  scroll_locked :: bool
  form_entries :: "(jsstring \<times> entry) list"
  form_defaults :: "(jsstring \<times> entry) list"
  requests :: "request list"
  downloads :: "(jsstring \<times> blob) list"
  timers :: "(callback \<times> nat) list"

text \<open>
  How the promises of one submission settle: \<open>fetch\<close> rejects or resolves to a
  response; \<open>res.json()\<close> and \<open>res.blob()\<close> reject (\<open>None\<close>) or resolve;
  \<open>res.headers.get('Content-Disposition')\<close> is \<open>null\<close> (\<open>None\<close>) or a string.
  \<open>res.ok\<close> is true exactly for a status from 200 to 299.
\<close>

record response =
  status :: nat
  statusText :: jsstring
  json_body :: "json option"
  blob_body :: "blob option"
  content_disposition :: "jsstring option"

datatype fetch_outcome = Rejected | Resolved response

record env =
  pathname :: jsstring
  fetch_result :: fetch_outcome

definition ok :: "response \<Rightarrow> bool" where
  "ok res \<longleftrightarrow> 200 \<le> status res \<and> status res \<le> 299"

section \<open>The modal\<close>

text \<open>
  \<^verbatim>\<open>
  const setMsg = (text, isError = false) => {
    if (!formMsg) return;
    formMsg.textContent = text;
    formMsg.style.color = isError ? '#dc2626' : '#064e3b';
  };
  const closeModal = () => {
    modal.classList.add('hidden');
    document.body.classList.remove('overflow-hidden');
    try { downloadBtn.focus(); } catch (e) {}
  };
  \<close>
\<close>

definition error_color :: jsstring where
  "error_color = js ''#dc2626''"

definition success_color :: jsstring where
  "success_color = js ''#064e3b''"

definition setMsg :: "jsstring \<Rightarrow> bool \<Rightarrow> dom \<Rightarrow> dom" where
  "setMsg text isError s =
     (case formMsg s of
        None \<Rightarrow> s
      | Some old \<Rightarrow> s\<lparr>formMsg := Some (text, if isError then error_color else success_color)\<rparr>)"



section \<open>The submit handler\<close>

text \<open>\<open>if (submitBtn) submitBtn.disabled = v\<close>.\<close>

definition set_disabled :: "bool \<Rightarrow> dom \<Rightarrow> dom" where
  "set_disabled v s = s\<lparr>submitBtn := map_option (\<lambda>old. v) (submitBtn s)\<rparr>"

text \<open>
  \<open>(fd.get(n) || '').toString().trim()\<close>: \<open>get\<close> returns the first entry of that name
  or \<open>null\<close>; \<open>null\<close> and the empty string are replaced by \<open>''\<close>; a File converts to
  \<open>[object File]\<close>.
\<close>

definition fd_get :: "(jsstring \<times> entry) list \<Rightarrow> jsstring \<Rightarrow> entry option" where
  "fd_get fd n = map_of fd n"

definition entry_or_empty :: "entry option \<Rightarrow> entry" where
  "entry_or_empty x =
     (case x of
        None \<Rightarrow> EString []
      | Some (EString v) \<Rightarrow> if v = [] then EString [] else EString v
      | Some (EFile f) \<Rightarrow> EFile f)"

definition entry_toString :: "entry \<Rightarrow> jsstring" where
  "entry_toString x = (case x of EString v \<Rightarrow> v | EFile f \<Rightarrow> js ''[object File]'')"

definition read_field :: "(jsstring \<times> entry) list \<Rightarrow> jsstring \<Rightarrow> jsstring" where
  "read_field fd n = trim (entry_toString (entry_or_empty (fd_get fd n)))"

text \<open>An attribute of the dataset is truthy when it is there and not empty.\<close>

definition truthy_attr :: "jsstring option \<Rightarrow> bool" where
  "truthy_attr a = (case a of None \<Rightarrow> False | Some v \<Rightarrow> v \<noteq> [])"

text \<open>
  \<^verbatim>\<open>
  const inferred = inferKeyFromPath();
  const pdfKey = (downloadBtn && downloadBtn.dataset && downloadBtn.dataset.pdf)
    ? downloadBtn.dataset.pdf : inferred;
  if (pdfKey && !(downloadBtn.dataset && downloadBtn.dataset.pdf)) {
    try { downloadBtn.dataset.pdf = pdfKey; } catch (e) {}
  }
  \<close>
\<close>

definition resolve_pdfKey :: "dom \<Rightarrow> jsstring \<Rightarrow> jsstring" where
  "resolve_pdfKey s path =
     (if truthy_attr (data_pdf s) then or_empty (data_pdf s) else inferKeyFromPath path)"

definition cache_pdfKey :: "jsstring \<Rightarrow> dom \<Rightarrow> dom" where
  "cache_pdfKey pdfKey s =
     (if pdfKey \<noteq> [] \<and> \<not> truthy_attr (data_pdf s) then s\<lparr>data_pdf := Some pdfKey\<rparr> else s)"

definition make_request :: "payload \<Rightarrow> request" where
  "make_request p =
     \<lparr>url = js ''/download'', http_method = js ''POST'',
      content_type = js ''application/json'', body = p\<rparr>"

text \<open>
  The branch of a response that is not \<open>ok\<close>:
  \<^verbatim>\<open>
  const errJson = await res.json().catch(() => ({ message: res.statusText }));
  setMsg('Error: ' + (errJson.message || res.statusText), true);
  if (submitBtn) submitBtn.disabled = false;
  return;
  \<close>
  A result \<open>Inl (err, s)\<close> is an exception thrown in state \<open>s\<close>.
\<close>

definition error_branch :: "response \<Rightarrow> dom \<Rightarrow> (js_error \<times> dom) + dom" where
  "error_branch res s =
     (let errJson = (case json_body res of
                       None \<Rightarrow> JObj [(js ''message'', JStr (statusText res))]
                     | Some v \<Rightarrow> v)
      in case get_message errJson of
           Inl err \<Rightarrow> Inl (err, s)
         | Inr m \<Rightarrow>
             (case to_string (or_else m (JStr (statusText res))) of
                Inl err \<Rightarrow> Inl (err, s)
              | Inr shown \<Rightarrow> Inr (set_disabled False (setMsg (js ''Error: '' @ shown) True s))))"

text \<open>
  The branch of a response that is \<open>ok\<close>:
  \<^verbatim>\<open>
  const blob = await res.blob();
  let filename = (downloadBtn && downloadBtn.dataset && downloadBtn.dataset.fallbackName)
    ? downloadBtn.dataset.fallbackName
    : (pdfKey ? pdfKey + '.pdf' : 'download.pdf');
  const cd = res.headers.get('Content-Disposition') || '';
  const m = cd.match(/filename\*=UTF-8''(.+)|filename="?(.+?)"?$/);
  if (m) filename = decodeURIComponent(m[1] || m[2]);
  const url = URL.createObjectURL(blob);
  const a = document.createElement('a');
  a.href = url; a.download = filename;
  document.body.appendChild(a); a.click(); a.remove();
  URL.revokeObjectURL(url);
  setMsg('Download started [U+2014] check your browser.', false);
  form.reset();
  setTimeout(closeModal, 800);
  \<close>
\<close>

definition fallback_filename :: "dom \<Rightarrow> jsstring \<Rightarrow> jsstring" where
  "fallback_filename s pdfKey =
     (if truthy_attr (data_fallbackName s) then or_empty (data_fallbackName s)
      else if pdfKey \<noteq> [] then pdfKey @ js ''.pdf'' else js ''download.pdf'')"

definition resolve_filename :: "jsstring \<Rightarrow> jsstring option \<Rightarrow> js_error + jsstring" where
  "resolve_filename fallback header =
     (let cd = or_empty header
      in case match_filename cd of
           None \<Rightarrow> Inr fallback
         | Some cap \<Rightarrow> decodeURIComponent cap)"

definition success_message :: jsstring where
  "success_message = js ''Download started '' @ [0x2014] @ js '' check your browser.''"

definition success_branch :: "response \<Rightarrow> jsstring \<Rightarrow> dom \<Rightarrow> (js_error \<times> dom) + dom" where
  "success_branch res pdfKey s =
     (case blob_body res of
        None \<Rightarrow> Inl (BlobError, s)
      | Some blob \<Rightarrow>
          (case resolve_filename (fallback_filename s pdfKey) (content_disposition res) of
             Inl err \<Rightarrow> Inl (err, s)
           | Inr filename \<Rightarrow>
               (let s1 = s\<lparr>downloads := downloads s @ [(filename, blob)]\<rparr>;
                    s2 = setMsg success_message False s1;
                    s3 = s2\<lparr>form_entries := form_defaults s2\<rparr>
                in Inr (s3\<lparr>timers := timers s3 @ [(CloseModal, 800)]\<rparr>))))"

text \<open>
  The \<open>try\<close> block of the handler:
  \<^verbatim>\<open>
  const fd = new FormData(form);
  ... pdfKey ...
  const payload = {
    name: (fd.get('name') || '').toString().trim(),
    email: (fd.get('email') || '').toString().trim(),
    mobile: (fd.get('mobile') || '').toString().trim(),
    pdf: pdfKey || ''
  };
  if (!payload.name || !payload.email || !payload.mobile) {
    setMsg('Please fill all required fields.', true);
    if (submitBtn) submitBtn.disabled = false;
    return;
  }
  const res = await fetch('/download', { method: 'POST',
    headers: { 'Content-Type': 'application/json' }, body: JSON.stringify(payload) });
  if (!res.ok) { ... }
  ...
  \<close>
\<close>

definition make_payload :: "(jsstring \<times> entry) list \<Rightarrow> jsstring \<Rightarrow> payload" where
  "make_payload fd pdfKey =
     \<lparr>name = read_field fd (js ''name''), email = read_field fd (js ''email''),
      mobile = read_field fd (js ''mobile''), pdf = or_empty (Some pdfKey)\<rparr>"

definition incomplete :: "payload \<Rightarrow> bool" where
  "incomplete p \<longleftrightarrow> name p = [] \<or> email p = [] \<or> mobile p = []"

definition try_block :: "env \<Rightarrow> dom \<Rightarrow> (js_error \<times> dom) + dom" where
  "try_block e s =
     (let fd = form_entries s;
          pdfKey = resolve_pdfKey s (pathname e);
          s1 = cache_pdfKey pdfKey s;
          p = make_payload fd pdfKey
      in if incomplete p
         then Inr (set_disabled False (setMsg (js ''Please fill all required fields.'') True s1))
         else (let s2 = s1\<lparr>requests := requests s1 @ [make_request p]\<rparr>
               in case fetch_result e of
                    Rejected \<Rightarrow> Inl (FetchError, s2)
                  | Resolved res \<Rightarrow>
                      if \<not> ok res then error_branch res s2
                      else success_branch res pdfKey s2))"

text \<open>
  The handler: disable the submit control, show the processing message, run the
  \<open>try\<close> block; \<open>catch\<close> shows the generic message; \<open>finally\<close> enables the control.
  \<^verbatim>\<open>
  form.addEventListener('submit', async (e) => {
    e.preventDefault();
    const submitBtn = form.querySelector('button[type="submit"]');
    if (submitBtn) submitBtn.disabled = true;
    setMsg('Processing...', false);
    try { ... } catch (err) {
      console.error('[pdf-submit] Error:', err);
      setMsg('Network or server error.', true);
    } finally {
      if (submitBtn) submitBtn.disabled = false;
    }
  });
  \<close>
\<close>

definition before_try :: "dom \<Rightarrow> dom" where
  "before_try s = setMsg (js ''Processing...'') False (set_disabled True s)"

definition on_submit :: "env \<Rightarrow> dom \<Rightarrow> dom" where
  "on_submit e s =
     set_disabled False
       (case try_block e (before_try s) of
          Inr s' \<Rightarrow> s'
        | Inl (err, s') \<Rightarrow> setMsg (js ''Network or server error.'') True s')"

text \<open>Submissions one after the other in the same page view, the oldest first.\<close>

fun submissions :: "env list \<Rightarrow> dom \<Rightarrow> dom" where
  "submissions [] s = s"
| "submissions (e # es) s = submissions es (on_submit e s)"

text \<open>
  The state in which \<open>fetch\<close> has been called: the key is cached and the request is
  in the log. Every exception of the \<open>try\<close> block is thrown in this state.
\<close>

definition requested :: "env \<Rightarrow> dom \<Rightarrow> dom" where
  "requested e s =
     (let k = resolve_pdfKey s (pathname e); s1 = cache_pdfKey k s
      in s1\<lparr>requests := requests s1 @ [make_request (make_payload (form_entries s) k)]\<rparr>)"

section \<open>The key as the specification words it\<close>

text \<open>
  Following the words of the specification, for comparison with \<open>resolve_pdfKey\<close>: the
  explicit identifier of the trigger control when one is present, otherwise the last
  segment of the path with a trailing \<open>.html\<close> and then a leading \<open>series-\<close> or
  \<open>page-\<close> removed.
\<close>

definition spec_inferred_key :: "jsstring \<Rightarrow> jsstring" where
  "spec_inferred_key path =
     (let seg = rev (takeWhile (\<lambda>c. c \<noteq> 0x2F) (rev path));
          base = (if suffix (js ''.html'') seg then take (length seg - 5) seg else seg)
      in if prefix (js ''series-'') base then drop 7 base
         else if prefix (js ''page-'') base then drop 5 base
         else base)"

definition spec_pdf_field :: "jsstring option \<Rightarrow> jsstring \<Rightarrow> jsstring" where
  "spec_pdf_field explicit path =
     (case explicit of Some k \<Rightarrow> k | None \<Rightarrow> spec_inferred_key path)"

section \<open>Example pages and responses\<close>

text \<open>
  A page with the whole DOM contract and the form filled in as in the specification's
  examples, and a successful response without a \<open>Content-Disposition\<close> header.
\<close>

definition example_page :: dom where
  "example_page =
     \<lparr>formMsg = Some ([], []), submitBtn = Some False,
      data_pdf = None, data_fallbackName = None,
      modal_hidden = False, scroll_locked = True,
      form_entries = [(js ''name'', EString (js ''A'')),
                      (js ''email'', EString (js ''a@b.com'')),
                      (js ''mobile'', EString (js ''123''))],
      form_defaults = [(js ''name'', EString []), (js ''email'', EString []),
                       (js ''mobile'', EString [])],
      requests = [], downloads = [], timers = []\<rparr>"

definition example_response :: response where
  "example_response =
     \<lparr>status = 200, statusText = js ''OK'', json_body = None,
      blob_body = Some [0x25, 0x50, 0x44, 0x46], content_disposition = None\<rparr>"

definition cutter_page :: env where
  "cutter_page =
     \<lparr>pathname = js ''/series-cutter-compactor.html'',
      fetch_result = Resolved example_response\<rparr>"

text \<open>The form of \<open>example_page\<close> with only blanks in the field \<open>name\<close>.\<close>

definition blank_name_page :: dom where
  "blank_name_page =
     example_page\<lparr>form_entries := [(js ''name'', EString (js ''  '')),
                                    (js ''email'', EString (js ''a@b.com'')),
                                    (js ''mobile'', EString (js ''123''))]\<rparr>"

text \<open>A form that has no control named \<open>mobile\<close>.\<close>

definition no_mobile_page :: dom where
  "no_mobile_page =
     example_page\<lparr>form_entries := [(js ''name'', EString (js ''A'')),
                                    (js ''email'', EString (js ''a@b.com''))]\<rparr>"


text \<open>
  Error responses: status 422 with the body \<^verbatim>\<open>{"message":"Invalid email"}\<close>, status 400
  with the body \<^verbatim>\<open>{"message":""}\<close>, and status 500 with a body that is not JSON.
\<close>

definition invalid_email :: env where
  "invalid_email =
     \<lparr>pathname = js ''/series-cutter-compactor.html'',
      fetch_result = Resolved
        \<lparr>status = 422, statusText = js ''Unprocessable Entity'',
         json_body = Some (JObj [(js ''message'', JStr (js ''Invalid email''))]),
         blob_body = None, content_disposition = None\<rparr>\<rparr>"

definition empty_message :: env where
  "empty_message =
     \<lparr>pathname = js ''/series-cutter-compactor.html'',
      fetch_result = Resolved
        \<lparr>status = 400, statusText = js ''Bad Request'',
         json_body = Some (JObj [(js ''message'', JStr [])]),
         blob_body = None, content_disposition = None\<rparr>\<rparr>"


definition offline :: env where
  "offline = \<lparr>pathname = js ''/series-cutter-compactor.html'', fetch_result = Rejected\<rparr>"

text \<open>
  Successful responses with a header that carries both forms of the file name, the
  plain one first as servers write it:
  \<^verbatim>\<open>attachment; filename="? rates.pdf"; filename*=UTF-8''%E2%82%AC%20rates.pdf\<close>
  and with the header of the specification's example:
  \<^verbatim>\<open>attachment; filename="guide.pdf"\<close>
\<close>

definition both_forms_header :: jsstring where
  "both_forms_header =
     js ''attachment; filename=\"? rates.pdf\"; filename*=UTF-8'' @ [0x27, 0x27]
       @ js ''%E2%82%AC%20rates.pdf''"

definition both_forms :: env where
  "both_forms =
     \<lparr>pathname = js ''/series-cutter-compactor.html'',
      fetch_result = Resolved
        (example_response\<lparr>content_disposition := Some both_forms_header\<rparr>)\<rparr>"

definition guide_header :: env where
  "guide_header =
     \<lparr>pathname = js ''/series-cutter-compactor.html'',
      fetch_result = Resolved
        (example_response
           \<lparr>content_disposition := Some (js ''attachment; filename=\"guide.pdf\"'')\<rparr>)\<rparr>"

section \<open>Properties of the path inference\<close>

lemma split_on_nonempty: "split_on sep xs \<noteq> []"
  by (induction xs) (auto split: list.splits)

lemma length_split_on:
  "length (split_on sep xs) = Suc (length (filter (\<lambda>c. c = sep) xs))"
  by (induction xs) (auto split: list.splits)

lemma split_on_no_sep: "sep \<notin> set xs \<Longrightarrow> split_on sep xs = [xs]"
  by (induction xs) auto

lemma last_split_on_append:
  "last (split_on sep (xs @ sep # ys)) = last (split_on sep ys)"
proof (induction xs)
  case Nil
  show ?case by (simp add: split_on_nonempty)
next
  case (Cons c cs)
  have "2 \<le> length (split_on sep (cs @ sep # ys))"
    by (simp add: length_split_on)
  then obtain seg seg' segs where "split_on sep (cs @ sep # ys) = seg # seg' # segs"
    by (cases "split_on sep (cs @ sep # ys)" rule: list.exhaust;
        cases "tl (split_on sep (cs @ sep # ys))") auto
  with Cons show ?case by auto
qed

text \<open>The segment popped is what follows the last separator.\<close>

lemma last_split_on:
  "last (split_on sep xs) = rev (takeWhile (\<lambda>c. c \<noteq> sep) (rev xs))"
proof (cases "sep \<in> set xs")
  case False
  then have "\<forall>x \<in> set (rev xs). x \<noteq> sep" by auto
  then have "takeWhile (\<lambda>c. c \<noteq> sep) (rev xs) = rev xs"
    by (simp only: takeWhile_eq_all_conv)
  then have "rev (takeWhile (\<lambda>c. c \<noteq> sep) (rev xs)) = xs"
    by (simp only: rev_rev_ident)
  moreover from False have "last (split_on sep xs) = xs"
    by (simp add: split_on_no_sep)
  ultimately show ?thesis by (simp only:)
next
  case True
  then obtain as bs where xs: "xs = as @ sep # bs" and bs: "sep \<notin> set bs"
    by (meson split_list_last)
  from bs have "takeWhile (\<lambda>c. c \<noteq> sep) (rev bs @ sep # rev as) = rev bs"
    by (simp add: takeWhile_append)
  with xs bs show ?thesis
    by (simp add: last_split_on_append split_on_no_sep)
qed

text \<open>
  Replacing \<open>/\.html$/i\<close> removes the last five code units when they spell \<open>.html\<close> in
  any letter case, and nothing otherwise.
\<close>

lemma replace_html_end_eq:
  "replace_html_end s =
     (if 5 \<le> length s \<and> map ascii_upper (drop (length s - 5) s) = js ''.HTML''
      then take (length s - 5) s else s)"
proof (induction s)
  case Nil
  show ?case by simp
next
  case (Cons c cs)
  show ?case
  proof (cases "matches_html_end (c # cs)")
    case True
    then have "length (map ascii_upper (c # cs)) = length (js ''.HTML'')"
      by (simp add: matches_html_end_def)
    then have "length cs = 4" by (simp add: js_def)
    with True show ?thesis by (simp add: matches_html_end_def)
  next
    case False
    consider "length cs < 4" | "length cs = 4" | "5 \<le> length cs" by linarith
    then show ?thesis
    proof cases
      case 1
      with False Cons show ?thesis by simp
    next
      case 2
      with False Cons show ?thesis by (simp add: matches_html_end_def)
    next
      case 3
      then have "Suc (length cs) - 5 = Suc (length cs - 5)" by simp
      with 3 False Cons show ?thesis by simp
    qed
  qed
qed

section \<open>What each step of the handler changes\<close>

lemma setMsg_formMsg [simp]:
  "formMsg (setMsg t b s) =
     map_option (\<lambda>old. (t, if b then error_color else success_color)) (formMsg s)"
  by (simp add: setMsg_def split: option.splits)

lemma setMsg_frame [simp]:
  "submitBtn (setMsg t b s) = submitBtn s"
  "data_pdf (setMsg t b s) = data_pdf s"
  "data_fallbackName (setMsg t b s) = data_fallbackName s"
  "modal_hidden (setMsg t b s) = modal_hidden s"
  "scroll_locked (setMsg t b s) = scroll_locked s"
  "form_entries (setMsg t b s) = form_entries s"
  "form_defaults (setMsg t b s) = form_defaults s"
  "requests (setMsg t b s) = requests s"
  "downloads (setMsg t b s) = downloads s"
  "timers (setMsg t b s) = timers s"
  by (simp_all add: setMsg_def split: option.splits)

lemma set_disabled_submitBtn [simp]:
  "submitBtn (set_disabled v s) = map_option (\<lambda>old. v) (submitBtn s)"
  by (simp add: set_disabled_def)

lemma set_disabled_frame [simp]:
  "formMsg (set_disabled v s) = formMsg s"
  "data_pdf (set_disabled v s) = data_pdf s"
  "data_fallbackName (set_disabled v s) = data_fallbackName s"
  "modal_hidden (set_disabled v s) = modal_hidden s"
  "scroll_locked (set_disabled v s) = scroll_locked s"
  "form_entries (set_disabled v s) = form_entries s"
  "form_defaults (set_disabled v s) = form_defaults s"
  "requests (set_disabled v s) = requests s"
  "downloads (set_disabled v s) = downloads s"
  "timers (set_disabled v s) = timers s"
  by (simp_all add: set_disabled_def)

lemma cache_pdfKey_data_pdf [simp]:
  "data_pdf (cache_pdfKey k s) =
     (if k \<noteq> [] \<and> \<not> truthy_attr (data_pdf s) then Some k else data_pdf s)"
  by (simp add: cache_pdfKey_def)

lemma cache_pdfKey_frame [simp]:
  "formMsg (cache_pdfKey k s) = formMsg s"
  "submitBtn (cache_pdfKey k s) = submitBtn s"
  "data_fallbackName (cache_pdfKey k s) = data_fallbackName s"
  "modal_hidden (cache_pdfKey k s) = modal_hidden s"
  "scroll_locked (cache_pdfKey k s) = scroll_locked s"
  "form_entries (cache_pdfKey k s) = form_entries s"
  "form_defaults (cache_pdfKey k s) = form_defaults s"
  "requests (cache_pdfKey k s) = requests s"
  "downloads (cache_pdfKey k s) = downloads s"
  "timers (cache_pdfKey k s) = timers s"
  by (simp_all add: cache_pdfKey_def)

lemma before_try_fields [simp]:
  "formMsg (before_try s) = map_option (\<lambda>old. (js ''Processing...'', success_color)) (formMsg s)"
  "submitBtn (before_try s) = map_option (\<lambda>old. True) (submitBtn s)"
  "data_pdf (before_try s) = data_pdf s"
  "data_fallbackName (before_try s) = data_fallbackName s"
  "modal_hidden (before_try s) = modal_hidden s"
  "scroll_locked (before_try s) = scroll_locked s"
  "form_entries (before_try s) = form_entries s"
  "form_defaults (before_try s) = form_defaults s"
  "requests (before_try s) = requests s"
  "downloads (before_try s) = downloads s"
  "timers (before_try s) = timers s"
  by (simp_all add: before_try_def)

lemma error_branch_submitBtn:
  "error_branch res s = Inr s' \<or> error_branch res s = Inl (err, s') \<Longrightarrow>
   (submitBtn s' = None) = (submitBtn s = None)"
  by (auto simp: error_branch_def Let_def split: sum.splits)

lemma success_branch_submitBtn:
  "success_branch res k s = Inr s' \<or> success_branch res k s = Inl (err, s') \<Longrightarrow>
   (submitBtn s' = None) = (submitBtn s = None)"
  by (auto simp: success_branch_def Let_def split: sum.splits option.splits)

lemma try_block_submitBtn:
  "try_block e s = Inr s' \<or> try_block e s = Inl (err, s') \<Longrightarrow>
   (submitBtn s' = None) = (submitBtn s = None)"
  unfolding try_block_def Let_def
  by (auto split: if_splits fetch_outcome.splits
      dest: error_branch_submitBtn [OF disjI1] error_branch_submitBtn [OF disjI2]
        success_branch_submitBtn [OF disjI1] success_branch_submitBtn [OF disjI2])

section \<open>The submit control after an attempt\<close>

lemma on_submit_submitBtn:
  "submitBtn (on_submit e s) = map_option (\<lambda>old. False) (submitBtn s)"
proof (cases "try_block e (before_try s)")
  case (Inl a)
  obtain err s' where a: "a = (err, s')" by (cases a)
  with Inl have "(submitBtn s' = None) = (submitBtn (before_try s) = None)"
    using try_block_submitBtn [of e "before_try s" s' err] by simp
  with Inl a show ?thesis
    by (cases "submitBtn s'"; cases "submitBtn s") (simp_all add: on_submit_def)
next
  case (Inr s')
  then have "(submitBtn s' = None) = (submitBtn (before_try s) = None)"
    using try_block_submitBtn [of e "before_try s" s'] by simp
  with Inr show ?thesis
    by (cases "submitBtn s'"; cases "submitBtn s") (simp_all add: on_submit_def)
qed

section \<open>The paths through the try block\<close>

lemma resolve_pdfKey_cong:
  "data_pdf s' = data_pdf s \<Longrightarrow> resolve_pdfKey s' path = resolve_pdfKey s path"
  by (simp add: resolve_pdfKey_def)

lemma resolve_pdfKey_before_try [simp]:
  "resolve_pdfKey (before_try s) path = resolve_pdfKey s path"
  by (rule resolve_pdfKey_cong) simp

lemma fallback_filename_cong:
  "data_fallbackName s' = data_fallbackName s \<Longrightarrow>
   fallback_filename s' k = fallback_filename s k"
  by (simp add: fallback_filename_def)

lemma requested_fields [simp]:
  "formMsg (requested e s) = formMsg s"
  "submitBtn (requested e s) = submitBtn s"
  "data_fallbackName (requested e s) = data_fallbackName s"
  "modal_hidden (requested e s) = modal_hidden s"
  "scroll_locked (requested e s) = scroll_locked s"
  "form_entries (requested e s) = form_entries s"
  "form_defaults (requested e s) = form_defaults s"
  "downloads (requested e s) = downloads s"
  "timers (requested e s) = timers s"
  "requests (requested e s) =
     requests s @ [make_request (make_payload (form_entries s) (resolve_pdfKey s (pathname e)))]"
  "data_pdf (requested e s) = data_pdf (cache_pdfKey (resolve_pdfKey s (pathname e)) s)"
  by (simp_all add: requested_def Let_def)

lemma try_block_incomplete:
  assumes "incomplete (make_payload (form_entries s) (resolve_pdfKey s (pathname e)))"
  shows "try_block e s =
     Inr (set_disabled False (setMsg (js ''Please fill all required fields.'') True
            (cache_pdfKey (resolve_pdfKey s (pathname e)) s)))"
  using assms by (simp add: try_block_def Let_def)

lemma try_block_complete:
  assumes "\<not> incomplete (make_payload (form_entries s) (resolve_pdfKey s (pathname e)))"
  shows "try_block e s =
     (case fetch_result e of
        Rejected \<Rightarrow> Inl (FetchError, requested e s)
      | Resolved res \<Rightarrow>
          if \<not> ok res then error_branch res (requested e s)
          else success_branch res (resolve_pdfKey s (pathname e)) (requested e s))"
  using assms by (simp add: try_block_def requested_def Let_def split: fetch_outcome.split)




lemma incomplete_iff:
  "incomplete (make_payload fd k) \<longleftrightarrow>
     read_field fd (js ''name'') = [] \<or> read_field fd (js ''email'') = []
     \<or> read_field fd (js ''mobile'') = []"
  by (simp add: incomplete_def make_payload_def)

lemma read_field_missing:
  "n \<notin> fst ` set fd \<Longrightarrow> read_field fd n = []"
  by (simp add: read_field_def fd_get_def map_of_eq_None_iff [THEN iffD2]
      entry_or_empty_def entry_toString_def trim_def)

lemma fallback_filename_requested [simp]:
  "fallback_filename (requested e s) k = fallback_filename s k"
  by (rule fallback_filename_cong) simp

lemma fallback_filename_before_try [simp]:
  "fallback_filename (before_try s) k = fallback_filename s k"
  by (rule fallback_filename_cong) simp

lemma requested_before_try_fields [simp]:
  "requests (requested e (before_try s)) = requests (requested e s)"
  "data_pdf (requested e (before_try s)) = data_pdf (requested e s)"
  by (simp_all add: cache_pdfKey_def)

lemma on_submit_success:
  assumes "\<not> incomplete (make_payload (form_entries s) (resolve_pdfKey s (pathname e)))"
    and "fetch_result e = Resolved res" and "ok res" and "blob_body res = Some b"
    and "resolve_filename (fallback_filename s (resolve_pdfKey s (pathname e)))
           (content_disposition res) = Inr f"
  shows "downloads (on_submit e s) = downloads s @ [(f, b)]"
    and "formMsg (on_submit e s) =
           map_option (\<lambda>old. (success_message, success_color)) (formMsg s)"
    and "form_entries (on_submit e s) = form_defaults s"
    and "timers (on_submit e s) = timers s @ [(CloseModal, 800)]"
    and "requests (on_submit e s) = requests (requested e s)"
    and "data_pdf (on_submit e s) = data_pdf (requested e s)"
    and "modal_hidden (on_submit e s) = modal_hidden s"
proof -
  from assms have "try_block e (before_try s) =
      success_branch res (resolve_pdfKey s (pathname e)) (requested e (before_try s))"
    by (simp add: try_block_complete)
  with assms show "downloads (on_submit e s) = downloads s @ [(f, b)]"
    and "formMsg (on_submit e s) =
           map_option (\<lambda>old. (success_message, success_color)) (formMsg s)"
    and "form_entries (on_submit e s) = form_defaults s"
    and "timers (on_submit e s) = timers s @ [(CloseModal, 800)]"
    and "requests (on_submit e s) = requests (requested e s)"
    and "data_pdf (on_submit e s) = data_pdf (requested e s)"
    and "modal_hidden (on_submit e s) = modal_hidden s"
    by (simp_all add: on_submit_def success_branch_def Let_def option.map_comp comp_def)
qed

lemma error_branch_frame:
  assumes "error_branch res s = Inr s' \<or> error_branch res s = Inl (err, s')"
  shows "requests s' = requests s" and "data_pdf s' = data_pdf s"
    and "downloads s' = downloads s" and "timers s' = timers s"
    and "modal_hidden s' = modal_hidden s" and "form_entries s' = form_entries s"
  using assms by (auto simp: error_branch_def Let_def split: sum.splits)

lemma success_branch_frame:
  assumes "success_branch res k s = Inr s' \<or> success_branch res k s = Inl (err, s')"
  shows "requests s' = requests s" and "data_pdf s' = data_pdf s"
    and "modal_hidden s' = modal_hidden s"
  using assms by (auto simp: success_branch_def Let_def split: sum.splits option.splits)

lemma try_block_frame:
  assumes "try_block e s = Inr s' \<or> try_block e s = Inl (err, s')"
  shows "data_pdf s' = data_pdf (cache_pdfKey (resolve_pdfKey s (pathname e)) s)"
    and "modal_hidden s' = modal_hidden s"
    and "requests s' =
      (if incomplete (make_payload (form_entries s) (resolve_pdfKey s (pathname e)))
       then requests s else requests (requested e s))"
proof -
  let ?inc = "incomplete (make_payload (form_entries s) (resolve_pdfKey s (pathname e)))"
  have "data_pdf s' = data_pdf (cache_pdfKey (resolve_pdfKey s (pathname e)) s)
      \<and> modal_hidden s' = modal_hidden s
      \<and> requests s' = (if ?inc then requests s else requests (requested e s))"
  proof (cases ?inc)
    case True
    with assms show ?thesis by (auto simp: try_block_incomplete)
  next
    case False
    show ?thesis
    proof (cases "fetch_result e")
      case Rejected
      with False assms show ?thesis by (auto simp: try_block_complete)
    next
      case (Resolved res)
      show ?thesis
      proof (cases "ok res")
        case True
        with False Resolved assms
        have "success_branch res (resolve_pdfKey s (pathname e)) (requested e s) = Inr s'
            \<or> success_branch res (resolve_pdfKey s (pathname e)) (requested e s) = Inl (err, s')"
          by (simp add: try_block_complete)
        from success_branch_frame [OF this] False show ?thesis by simp
      next
        case nok: False
        with False Resolved assms
        have "error_branch res (requested e s) = Inr s'
            \<or> error_branch res (requested e s) = Inl (err, s')"
          by (simp add: try_block_complete)
        from error_branch_frame(1,2,5) [OF this] False show ?thesis by simp
      qed
    qed
  qed
  then show "data_pdf s' = data_pdf (cache_pdfKey (resolve_pdfKey s (pathname e)) s)"
    and "modal_hidden s' = modal_hidden s"
    and "requests s' =
      (if incomplete (make_payload (form_entries s) (resolve_pdfKey s (pathname e)))
       then requests s else requests (requested e s))"
    by simp_all
qed

lemma on_submit_frame:
  "data_pdf (on_submit e s) = data_pdf (cache_pdfKey (resolve_pdfKey s (pathname e)) s)"
  "modal_hidden (on_submit e s) = modal_hidden s"
  "requests (on_submit e s) =
      (if incomplete (make_payload (form_entries s) (resolve_pdfKey s (pathname e)))
       then requests s else requests (requested e s))"
proof -
  have "data_pdf (on_submit e s) = data_pdf (cache_pdfKey (resolve_pdfKey s (pathname e)) s)
    \<and> modal_hidden (on_submit e s) = modal_hidden s
    \<and> requests (on_submit e s) =
      (if incomplete (make_payload (form_entries s) (resolve_pdfKey s (pathname e)))
       then requests s else requests (requested e s))"
  proof (cases "try_block e (before_try s)")
    case (Inl a)
    obtain err s' where a: "a = (err, s')" by (cases a)
    with Inl have "try_block e (before_try s) = Inr s' \<or> try_block e (before_try s) = Inl (err, s')"
      by simp
    from try_block_frame [OF this] Inl a show ?thesis
      by (simp add: on_submit_def cache_pdfKey_def)
  next
    case (Inr s')
    then have "try_block e (before_try s) = Inr s' \<or> try_block e (before_try s) = Inl (undefined, s')"
      by simp
    from try_block_frame [OF this] Inr show ?thesis
      by (simp add: on_submit_def cache_pdfKey_def)
  qed
  then show "data_pdf (on_submit e s) = data_pdf (cache_pdfKey (resolve_pdfKey s (pathname e)) s)"
  "modal_hidden (on_submit e s) = modal_hidden s"
  "requests (on_submit e s) =
      (if incomplete (make_payload (form_entries s) (resolve_pdfKey s (pathname e)))
       then requests s else requests (requested e s))"
    by simp_all
qed

lemma inferKeyFromPath_eq:
  "inferKeyFromPath path =
     (let seg = rev (takeWhile (\<lambda>c. c \<noteq> 0x2F) (rev path));
          base = (if 5 \<le> length seg \<and> map ascii_upper (drop (length seg - 5) seg) = js ''.HTML''
                  then take (length seg - 5) seg else seg);
          rest = (if prefix (js ''series-'') base then drop 7 base else base)
      in if prefix (js ''page-'') rest then drop 5 rest else rest)"
proof -
  have "or_empty (pop (split_on 0x2F path)) = rev (takeWhile (\<lambda>c. c \<noteq> 0x2F) (rev path))"
    by (simp add: pop_def split_on_nonempty or_empty_def last_split_on)
  moreover have "length (js ''series-'') = 7" "length (js ''page-'') = 5"
    by (simp_all add: js_def)
  ultimately show ?thesis
    by (simp add: inferKeyFromPath_def Let_def replace_html_end_eq replace_start_def or_empty_def)
qed

lemma resolve_pdfKey_truthy:
  "truthy_attr (data_pdf s) \<Longrightarrow> data_pdf s = Some (resolve_pdfKey s path)"
  by (auto simp: resolve_pdfKey_def truthy_attr_def or_empty_def split: option.splits)

lemma on_submit_keeps_key:
  assumes "truthy_attr (data_pdf s)"
  shows "data_pdf (on_submit e s) = data_pdf s"
  using assms by (simp add: on_submit_frame)

lemma submissions_keep_key:
  "truthy_attr (data_pdf s) \<Longrightarrow> data_pdf (submissions es s) = data_pdf s"
  by (induction es arbitrary: s) (simp_all add: on_submit_keeps_key)

lemma on_submit_server_error:
  assumes "\<not> incomplete (make_payload (form_entries s) (resolve_pdfKey s (pathname e)))"
    and "fetch_result e = Resolved res" and "\<not> ok res"
    and "error_branch res (requested e (before_try s)) = Inr s'"
  shows "on_submit e s = set_disabled False s'"
  using assms by (simp add: on_submit_def try_block_complete)

lemma catch_fallback_message:
  "to_string (or_else (Some (JStr t)) (JStr t)) = Inr t"
  by (simp add: or_else_def)

section \<open>Evaluating the handler on concrete input\<close>

lemmas cd_defs = resolve_filename_def or_empty_def match_ext_def match_plain_def
  ext_literal_def lazy_to_end_def is_line_terminator_def js_def Let_def

lemma decode_pending:
  "0 < k \<Longrightarrow> decode octs k (c # cs) =
     (if c \<noteq> 0x25 then Inl URIError
      else (case cs of
              h1 # h2 # rest \<Rightarrow>
                (case hex_octet h1 h2 of
                   None \<Rightarrow> Inl URIError
                 | Some b \<Rightarrow>
                     if k = 1
                     then (case utf8_codepoint (octs @ [b]) of
                             None \<Rightarrow> Inl URIError
                           | Some cp \<Rightarrow> emit (utf16_encode cp) (decode [] 0 rest))
                     else decode (octs @ [b]) (k - 1) rest)
            | _ \<Rightarrow> Inl URIError))"
  by (cases k) (simp_all split: list.splits option.splits)

lemmas decode_defs = decodeURIComponent_def emit_def hex_octet_def hex_digit_def
  leading_ones_def utf8_codepoint_def utf16_encode_def decode_pending

lemmas handler_defs = on_submit_def try_block_def before_try_def setMsg_def set_disabled_def
  resolve_pdfKey_def cache_pdfKey_def truthy_attr_def make_payload_def make_request_def
  incomplete_def read_field_def fd_get_def entry_or_empty_def entry_toString_def trim_def
  is_ws_def ok_def error_branch_def success_branch_def fallback_filename_def
  inferKeyFromPath_def pop_def matches_html_end_def ascii_upper_def replace_start_def
  get_message_def or_else_def

section \<open>Claims about the submission flow\<close>

lemma example_page_fields:
  "formMsg example_page = Some ([], [])"
  "submitBtn example_page = Some False"
  "data_pdf example_page = None"
  "data_fallbackName example_page = None"
  "modal_hidden example_page = False"
  "form_defaults example_page =
     [(js ''name'', EString []), (js ''email'', EString []), (js ''mobile'', EString [])]"
  "requests example_page = []"
  "downloads example_page = []"
  "timers example_page = []"
  by (simp_all add: example_page_def)

lemma blank_name_page_fields:
  "formMsg blank_name_page = Some ([], [])"
  "submitBtn blank_name_page = Some False"
  "requests blank_name_page = []"
  by (simp_all add: blank_name_page_def example_page_def)

lemma no_mobile_page_fields:
  "requests no_mobile_page = []"
  "downloads no_mobile_page = []"
  by (simp_all add: no_mobile_page_def example_page_def)

lemma example_page_complete:
  "\<not> incomplete (make_payload (form_entries example_page) k)"
  by (simp add: incomplete_iff example_page_def read_field_def fd_get_def
      entry_or_empty_def entry_toString_def trim_def is_ws_def js_def)

lemma example_page_cutter_key:
  "resolve_pdfKey example_page (js ''/series-cutter-compactor.html'') = js ''cutter-compactor''"
  by (simp add: example_page_def resolve_pdfKey_def truthy_attr_def inferKeyFromPath_def
      pop_def or_empty_def matches_html_end_def ascii_upper_def replace_start_def js_def)

subsection \<open>C1: validation abort\<close>

text \<open>
  Claim C1, as amended. For every submission in which the trimmed \<open>name\<close>, \<open>email\<close> or
  \<open>mobile\<close> is the empty string, the handler issues no network request, leaves the
  submit control enabled, and shows the message "Please fill all required fields." in
  the error colour in \<open>#form-msg\<close> when the page has that element; on a page without
  it (the handler is installed all the same) there is no message.
\<close>

theorem validation_abort:
  assumes "read_field (form_entries s) (js ''name'') = []
         \<or> read_field (form_entries s) (js ''email'') = []
         \<or> read_field (form_entries s) (js ''mobile'') = []"
  shows "requests (on_submit e s) = requests s
       \<and> submitBtn (on_submit e s) = map_option (\<lambda>old. False) (submitBtn s)
       \<and> formMsg (on_submit e s) =
           map_option (\<lambda>old. (js ''Please fill all required fields.'', error_color)) (formMsg s)"
proof -
  from assms have "incomplete (make_payload (form_entries (before_try s))
      (resolve_pdfKey (before_try s) (pathname e)))"
    by (simp add: incomplete_iff)
  then show ?thesis
    by (simp add: on_submit_def try_block_incomplete option.map_comp comp_def)
qed

lemma blank_name_trimmed:
  "read_field (form_entries blank_name_page) (js ''name'') = []"
  by (simp add: blank_name_page_def example_page_def read_field_def fd_get_def
      entry_or_empty_def entry_toString_def trim_def is_ws_def js_def)

theorem validation_abort_witness:
  "read_field (form_entries blank_name_page) (js ''name'') = []
   \<and> requests (on_submit cutter_page blank_name_page) = []
   \<and> submitBtn (on_submit cutter_page blank_name_page) = Some False
   \<and> formMsg (on_submit cutter_page blank_name_page) =
         Some (js ''Please fill all required fields.'', error_color)"
proof -
  have h: "read_field (form_entries blank_name_page) (js ''name'') = []
         \<or> read_field (form_entries blank_name_page) (js ''email'') = []
         \<or> read_field (form_entries blank_name_page) (js ''mobile'') = []"
    by (simp add: blank_name_trimmed)
  from validation_abort [OF h, of cutter_page] show ?thesis
    by (simp add: blank_name_trimmed blank_name_page_fields)
qed

text \<open>
  The claim as stated fails on a page without \<open>#form-msg\<close>: the field \<open>name\<close> is blank,
  and no message is shown.
\<close>

theorem validation_message_counterexample:
  "read_field (form_entries (blank_name_page\<lparr>formMsg := None\<rparr>)) (js ''name'') = []
   \<and> formMsg (on_submit cutter_page (blank_name_page\<lparr>formMsg := None\<rparr>)) = None
   \<and> formMsg (on_submit cutter_page (blank_name_page\<lparr>formMsg := None\<rparr>))
       \<noteq> Some (js ''Please fill all required fields.'', error_color)"
  by (simp add: example_page_def example_response_def cutter_page_def blank_name_page_def
      handler_defs cd_defs)

subsection \<open>C2: the posted document key\<close>

text \<open>
  Claim C2, as amended. Every submission that passes validation posts one request,
  and its \<open>pdf\<close> field is the \<open>data-pdf\<close> value of the trigger control when that value
  is not empty; otherwise it is the last segment of the page path from which a trailing
  \<open>.html\<close> in any letter case has been removed, then a leading \<open>series-\<close> if there
  is one, then a leading \<open>page-\<close> if there is one (so both go from
  \<open>series-page-x.html\<close>).
\<close>

theorem posted_pdf_key:
  assumes "\<not> incomplete (make_payload (form_entries s) (resolve_pdfKey s (pathname e)))"
  shows "requests (on_submit e s) = requests s @ [last (requests (on_submit e s))]
       \<and> pdf (body (last (requests (on_submit e s)))) =
          (let seg = rev (takeWhile (\<lambda>c. c \<noteq> 0x2F) (rev (pathname e)));
               base = (if 5 \<le> length seg
                          \<and> map ascii_upper (drop (length seg - 5) seg) = js ''.HTML''
                       then take (length seg - 5) seg else seg);
               rest = (if prefix (js ''series-'') base then drop 7 base else base);
               inferred = (if prefix (js ''page-'') rest then drop 5 rest else rest)
           in case data_pdf s of
                None \<Rightarrow> inferred
              | Some explicit \<Rightarrow> if explicit = [] then inferred else explicit)"
proof -
  let ?inferred = "inferKeyFromPath (pathname e)"
  let ?key = "case data_pdf s of
                None \<Rightarrow> ?inferred
              | Some explicit \<Rightarrow> if explicit = [] then ?inferred else explicit"
  from assms have "requests (on_submit e s) = requests (requested e s)"
    by (simp add: on_submit_frame)
  moreover have "resolve_pdfKey s (pathname e) = ?key"
    by (simp add: resolve_pdfKey_def truthy_attr_def or_empty_def split: option.splits)
  ultimately have "requests (on_submit e s) = requests s @ [last (requests (on_submit e s))]
       \<and> pdf (body (last (requests (on_submit e s)))) = ?key"
    by (simp add: make_request_def make_payload_def or_empty_def)
  then show ?thesis
    unfolding inferKeyFromPath_eq Let_def .
qed

text \<open>
  The first example of the specification: no explicit key, path
  \<open>series-cutter-compactor.html\<close>.
\<close>

theorem posted_pdf_key_witness:
  "\<not> incomplete (make_payload (form_entries example_page)
        (resolve_pdfKey example_page (pathname cutter_page)))
   \<and> pdf (body (last (requests (on_submit cutter_page example_page)))) = js ''cutter-compactor''"
proof -
  have h: "\<not> incomplete (make_payload (form_entries example_page)
        (resolve_pdfKey example_page (pathname cutter_page)))"
    by (rule example_page_complete)
  from posted_pdf_key [OF h] have
    "pdf (body (last (requests (on_submit cutter_page example_page)))) = js ''cutter-compactor''"
    by (simp add: cutter_page_def example_page_fields ascii_upper_def js_def)
  with h show ?thesis by (rule conjI)
qed

text \<open>The second example: an explicit key is posted whatever the path is.\<close>

lemma explicit_key_posted:
  assumes "\<not> incomplete (make_payload (form_entries s) (resolve_pdfKey s (pathname e)))"
    and "data_pdf s = Some k" and "k \<noteq> []"
  shows "pdf (body (last (requests (on_submit e s)))) = k"
  using assms
  by (simp add: on_submit_frame make_request_def make_payload_def or_empty_def
      resolve_pdfKey_def truthy_attr_def)

text \<open>
  The claim as stated fails in three ways: a suffix \<open>.HTML\<close> in upper case is removed
  too; after \<open>series-\<close> a following \<open>page-\<close> is removed as well; and an explicit
  identifier that is present but empty is passed over for the inferred key.
\<close>

theorem posted_pdf_key_counterexample:
  "pdf (body (last (requests (on_submit
       \<lparr>pathname = js ''/catalog/Brochure.HTML'', fetch_result = Rejected\<rparr> example_page))))
     = js ''Brochure''
   \<and> spec_pdf_field (data_pdf example_page) (js ''/catalog/Brochure.HTML'')
     = js ''Brochure.HTML''
   \<and> pdf (body (last (requests (on_submit
       \<lparr>pathname = js ''/series-page-about.html'', fetch_result = Rejected\<rparr> example_page))))
     = js ''about''
   \<and> spec_pdf_field (data_pdf example_page) (js ''/series-page-about.html'')
     = js ''page-about''
   \<and> pdf (body (last (requests (on_submit
       offline (example_page\<lparr>data_pdf := Some []\<rparr>)))))
     = js ''cutter-compactor''
   \<and> spec_pdf_field (data_pdf (example_page\<lparr>data_pdf := Some []\<rparr>)) (pathname offline)
     = []"
  by (simp add: example_page_def offline_def
      handler_defs cd_defs spec_pdf_field_def spec_inferred_key_def
      suffix_to_prefix)

subsection \<open>C3: a response that is not ok\<close>

text \<open>
  Claim C3, as amended. For every submission whose response has a status outside
  200 to 299 and whose error body is not the JSON value \<open>null\<close>: when the parsed body
  has a \<open>message\<close> member that is truthy and whose conversion to a string does not
  throw, the handler displays "Error: " followed by that member converted to a string;
  when the body does not parse, is not an object, or its \<open>message\<close> is missing or falsy
  (such as the empty string), it displays "Error: " followed by the status text of
  the response. In both cases the message is in the error colour in \<open>#form-msg\<close> when
  the page has that element, the submit control is enabled, no download is triggered
  and the modal stays as it is. Status 422 with the body
  \<^verbatim>\<open>{"message":"Invalid email"}\<close> displays exactly "Error: Invalid email". A truthy
  member whose conversion throws (an object with a member \<open>toString\<close> of its own) is
  left out, as the \<open>null\<close> body is.
\<close>

theorem server_error_message:
  assumes "\<not> incomplete (make_payload (form_entries s) (resolve_pdfKey s (pathname e)))"
    and "fetch_result e = Resolved res" and "\<not> ok res"
    and "json_body res \<noteq> Some JNull"
    and "(let member = (case json_body res of
                          Some (JObj fs) \<Rightarrow> map_of (rev fs) (js ''message'')
                        | _ \<Rightarrow> None)
          in case member of
               None \<Rightarrow> Inr (statusText res)
             | Some m \<Rightarrow> if truthy m then to_string m else Inr (statusText res)) = Inr shown"
  shows "formMsg (on_submit e s) =
           map_option (\<lambda>old. (js ''Error: '' @ shown, error_color)) (formMsg s)
       \<and> submitBtn (on_submit e s) = map_option (\<lambda>old. False) (submitBtn s)
       \<and> downloads (on_submit e s) = downloads s
       \<and> timers (on_submit e s) = timers s
       \<and> modal_hidden (on_submit e s) = modal_hidden s"
proof -
  let ?s2 = "requested e (before_try s)"
  have "error_branch res ?s2 =
      Inr (set_disabled False (setMsg (js ''Error: '' @ shown) True ?s2))"
  proof (cases "json_body res")
    case None
    with assms(5) have "shown = statusText res" by simp
    with None show ?thesis
      by (simp add: error_branch_def get_message_def catch_fallback_message)
  next
    case (Some v)
    with assms(4) have "v \<noteq> JNull" by simp
    with Some assms(5) show ?thesis
      by (cases v)
        (auto simp: error_branch_def get_message_def or_else_def Let_def
          split: option.splits if_splits)
  qed
  from on_submit_server_error [OF assms(1-3) this] show ?thesis
    by (simp add: option.map_comp comp_def)
qed

theorem server_error_message_witness:
  "fetch_result invalid_email = Resolved
      \<lparr>status = 422, statusText = js ''Unprocessable Entity'',
       json_body = Some (JObj [(js ''message'', JStr (js ''Invalid email''))]),
       blob_body = None, content_disposition = None\<rparr>
   \<and> formMsg (on_submit invalid_email example_page) =
         Some (js ''Error: Invalid email'', error_color)
   \<and> submitBtn (on_submit invalid_email example_page) = Some False
   \<and> downloads (on_submit invalid_email example_page) = []
   \<and> timers (on_submit invalid_email example_page) = []
   \<and> modal_hidden (on_submit invalid_email example_page) = False"
proof -
  let ?res = "\<lparr>status = 422, statusText = js ''Unprocessable Entity'',
       json_body = Some (JObj [(js ''message'', JStr (js ''Invalid email''))]),
       blob_body = None, content_disposition = None\<rparr>"
  have h1: "\<not> incomplete (make_payload (form_entries example_page)
        (resolve_pdfKey example_page (pathname invalid_email)))"
    by (rule example_page_complete)
  have h2: "fetch_result invalid_email = Resolved ?res"
    by (simp add: invalid_email_def)
  have h3: "\<not> ok ?res" by (simp add: ok_def)
  have h4: "json_body ?res \<noteq> Some JNull" by simp
  have h5: "(let member = (case json_body ?res of
                          Some (JObj fs) \<Rightarrow> map_of (rev fs) (js ''message'')
                        | _ \<Rightarrow> None)
          in case member of
               None \<Rightarrow> Inr (statusText ?res)
             | Some m \<Rightarrow> if truthy m then to_string m else Inr (statusText ?res))
        = Inr (js ''Invalid email'')"
    by (simp add: js_def)
  from server_error_message [OF h1 h2 h3 h4 h5] h2 show ?thesis
    by (simp add: example_page_fields) (simp add: js_def)
qed

text \<open>
  The claim as stated fails when the body parses and its \<open>message\<close> is the empty
  string: what follows "Error: " is the status text, not the member.
\<close>

theorem server_error_message_counterexample:
  "formMsg (on_submit empty_message example_page) =
     Some (js ''Error: Bad Request'', error_color)
   \<and> formMsg (on_submit empty_message example_page) \<noteq> Some (js ''Error: '' @ [], error_color)"
  by (simp add: example_page_def empty_message_def
      handler_defs cd_defs error_color_def)

text \<open>
  A body that is the JSON value \<open>null\<close> makes the read of \<open>errJson.message\<close> throw; the
  exception reaches the \<open>catch\<close> block of the handler.
\<close>

lemma null_error_body_throws:
  assumes "\<not> incomplete (make_payload (form_entries s) (resolve_pdfKey s (pathname e)))"
    and "fetch_result e = Resolved res" and "\<not> ok res" and "json_body res = Some JNull"
  shows "try_block e s = Inl (TypeError, requested e s)"
  using assms by (simp add: try_block_complete error_branch_def get_message_def)

text \<open>
  So does a truthy \<open>message\<close> whose conversion to a string throws, as for the body
  \<^verbatim>\<open>{"message":{"toString":"x"}}\<close>.
\<close>

lemma unconvertible_message_throws:
  assumes "\<not> incomplete (make_payload (form_entries s) (resolve_pdfKey s (pathname e)))"
    and "fetch_result e = Resolved res" and "\<not> ok res"
    and "json_body res = Some (JObj fs)"
    and "map_of (rev fs) (js ''message'') = Some m" and "truthy m"
    and "to_string m = Inl err"
  shows "try_block e s = Inl (err, requested e s)"
  using assms
  by (simp add: try_block_complete error_branch_def get_message_def or_else_def)

lemma own_toString_throws:
  "to_string (JObj [(js ''toString'', JStr (js ''x''))]) = Inl TypeError"
  by simp

subsection \<open>C4: the file name of the header\<close>

text \<open>
  Claim C4 says that the file name of the download comes from the
  \<open>Content-Disposition\<close> header, the extended form \<open>filename*=UTF-8''...\<close> being
  taken before the plain form when both are there. On a header with both forms, the
  plain one first, the code takes neither: the match starts at the plain form, whose
  lazy group must run to the end of the header, and the download is named by
  everything after \<open>filename="\<close>, the second parameter included.
\<close>

theorem both_forms_filename:
  "map fst (downloads (on_submit both_forms example_page)) =
     [js ''? rates.pdf\"; filename*=UTF-8'' @ [0x27, 0x27, 0x20AC] @ js '' rates.pdf'']"
  by (simp add: example_page_def example_response_def both_forms_header_def both_forms_def
      handler_defs cd_defs decode_defs)

text \<open>
  What holds of the claim: the header of the specification's example names the
  download \<open>guide.pdf\<close>, and an extended form on its own is percent-decoded.
\<close>

lemma guide_header_filename:
  "map fst (downloads (on_submit guide_header example_page)) = [js ''guide.pdf'']"
  by (simp add: example_page_def example_response_def guide_header_def
      handler_defs cd_defs decode_defs)

lemma extended_form_alone:
  "resolve_filename fallback
     (Some (js ''attachment; filename*=UTF-8'' @ [0x27, 0x27] @ js ''%E2%82%AC%20rates.pdf''))
   = Inr ([0x20AC] @ js '' rates.pdf'')"
  by (simp add: cd_defs decode_defs)

text \<open>
  The plain form is percent-decoded as well, so a plain name with a lone \<open>%\<close> throws
  and nothing is downloaded.
\<close>

lemma plain_form_percent_throws:
  "resolve_filename fallback (Some (js ''attachment; filename=\"100%.pdf\"'')) = Inl URIError"
  by (simp add: cd_defs decode_defs)

lemma decode_no_percent: "0x25 \<notin> set s \<Longrightarrow> decode octs 0 s = Inr s"
  by (induction s arbitrary: octs) (simp_all add: emit_def)

lemma lazy_from_quoted:
  "\<forall>c \<in> set n. \<not> is_line_terminator c \<Longrightarrow> lazy_from acc (n @ [0x22]) = Some (acc @ n)"
  by (induction n arbitrary: acc) simp_all

lemma match_plain_quoted:
  assumes "n \<noteq> []" and "\<forall>c \<in> set n. \<not> is_line_terminator c"
  shows "match_plain (js ''filename='' @ 0x22 # n @ [0x22]) = Some n"
proof -
  obtain c cs where n: "n = c # cs" using assms(1) by (cases n) auto
  with assms(2) have "lazy_to_end (n @ [0x22]) = Some n"
    using lazy_from_quoted [of cs "[c]"] by (simp add: lazy_to_end_def)
  then show ?thesis
    by (simp add: match_plain_def js_def)
qed

text \<open>
  A header with the plain form alone, quoted, names the download as the claim says,
  provided the name has no \<open>%\<close>.
\<close>

lemma plain_header_filename:
  assumes "n \<noteq> []" and "\<forall>c \<in> set n. \<not> is_line_terminator c" and "0x25 \<notin> set n"
  shows "resolve_filename fallback (Some (js ''attachment; filename='' @ 0x22 # n @ [0x22]))
         = Inr n"
proof -
  have "match_filename (js ''attachment; filename='' @ 0x22 # n @ [0x22]) =
      match_plain (js ''filename='' @ 0x22 # n @ [0x22])"
    using match_plain_quoted [OF assms(1,2)]
    by (simp add: js_def match_ext_def match_plain_def ext_literal_def)
  with match_plain_quoted [OF assms(1,2)] assms(3) show ?thesis
    by (simp add: resolve_filename_def or_empty_def decodeURIComponent_def decode_no_percent)
qed

text \<open>
  With the extended form first, its greedy group takes the rest of the header, the
  plain parameter included.
\<close>

lemma extended_form_first:
  "resolve_filename fallback
     (Some (js ''attachment; filename*=UTF-8'' @ [0x27, 0x27]
            @ js ''%E2%82%AC%20rates.pdf; filename=\"? rates.pdf\"''))
   = Inr ([0x20AC] @ js '' rates.pdf; filename=\"? rates.pdf\"'')"
  by (simp add: cd_defs decode_defs)

subsection \<open>C5: the fallback file name\<close>

text \<open>
  Claim C5, as amended. For every successful response whose \<open>Content-Disposition\<close>
  header is absent or matches neither form of the file name, the download is named by
  the \<open>data-fallback-name\<close> value of the trigger control when that value is not empty,
  otherwise by the resolved pdf key followed by \<open>.pdf\<close> when the key is not empty,
  otherwise \<open>download.pdf\<close>. The resolved key is the one posted.
\<close>

theorem fallback_name_used:
  assumes "\<not> incomplete (make_payload (form_entries s) (resolve_pdfKey s (pathname e)))"
    and "fetch_result e = Resolved res" and "ok res" and "blob_body res = Some b"
    and "match_filename (or_empty (content_disposition res)) = None"
  shows "downloads (on_submit e s) =
     downloads s @
       [(let k = resolve_pdfKey s (pathname e);
             computed = (if k = [] then js ''download.pdf'' else k @ js ''.pdf'')
         in case data_fallbackName s of
              None \<Rightarrow> computed
            | Some given \<Rightarrow> if given = [] then computed else given,
         b)]
     \<and> pdf (body (last (requests (on_submit e s)))) = resolve_pdfKey s (pathname e)"
proof -
  let ?k = "resolve_pdfKey s (pathname e)"
  from assms(5) have f: "resolve_filename (fallback_filename s ?k) (content_disposition res)
      = Inr (fallback_filename s ?k)"
    by (simp add: resolve_filename_def Let_def)
  have k: "pdf (body (last (requests (on_submit e s)))) = ?k"
    using on_submit_success(5) [OF assms(1-4) f]
    by (simp add: make_request_def make_payload_def or_empty_def)
  show ?thesis
    using on_submit_success(1) [OF assms(1-4) f] k
    by (simp add: fallback_filename_def truthy_attr_def or_empty_def Let_def
        split: option.splits)
qed

theorem fallback_name_used_witness:
  "fetch_result cutter_page = Resolved example_response
   \<and> match_filename (or_empty (content_disposition example_response)) = None
   \<and> downloads (on_submit cutter_page example_page) =
       [(js ''cutter-compactor.pdf'', [0x25, 0x50, 0x44, 0x46])]"
proof -
  have h1: "\<not> incomplete (make_payload (form_entries example_page)
        (resolve_pdfKey example_page (pathname cutter_page)))"
    by (rule example_page_complete)
  have h2: "fetch_result cutter_page = Resolved example_response"
    by (simp add: cutter_page_def)
  have h3: "ok example_response" by (simp add: ok_def example_response_def)
  have h4: "blob_body example_response = Some [0x25, 0x50, 0x44, 0x46]"
    by (simp add: example_response_def)
  have h5: "match_filename (or_empty (content_disposition example_response)) = None"
    by (simp add: example_response_def or_empty_def)
  have k: "resolve_pdfKey example_page (pathname cutter_page) = js ''cutter-compactor''"
    using example_page_cutter_key by (simp add: cutter_page_def)
  from fallback_name_used [OF h1 h2 h3 h4 h5] h2 h5 show ?thesis
    by (simp add: k example_page_fields) (simp add: js_def)
qed

text \<open>
  The claim as stated fails when the fallback attribute is there but empty: the
  download is named after the key, not by the attribute.
\<close>

theorem fallback_name_counterexample:
  "data_fallbackName (example_page\<lparr>data_fallbackName := Some []\<rparr>) = Some []
   \<and> map fst (downloads (on_submit cutter_page (example_page\<lparr>data_fallbackName := Some []\<rparr>)))
       = [js ''cutter-compactor.pdf'']
   \<and> map fst (downloads (on_submit cutter_page (example_page\<lparr>data_fallbackName := Some []\<rparr>)))
       \<noteq> [[]]"
  by (simp add: example_page_def example_response_def cutter_page_def
      handler_defs cd_defs)

subsection \<open>C6: exceptions of the try block\<close>


lemma blob_failure_throws:
  assumes "\<not> incomplete (make_payload (form_entries s) (resolve_pdfKey s (pathname e)))"
    and "fetch_result e = Resolved res" and "ok res" and "blob_body res = None"
  shows "try_block e s = Inl (BlobError, requested e s)"
  using assms by (simp add: try_block_complete success_branch_def)

lemma bad_escape_throws:
  assumes "\<not> incomplete (make_payload (form_entries s) (resolve_pdfKey s (pathname e)))"
    and "fetch_result e = Resolved res" and "ok res" and "blob_body res = Some b"
    and "resolve_filename (fallback_filename s (resolve_pdfKey s (pathname e)))
           (content_disposition res) = Inl err"
  shows "try_block e s = Inl (err, requested e s)"
  using assms by (simp add: try_block_complete success_branch_def)

text \<open>These are all the ways in which the \<open>try\<close> block throws.\<close>

lemma error_branch_throws_iff:
  "(\<exists>err s'. error_branch res s = Inl (err, s')) \<longleftrightarrow>
     json_body res = Some JNull
     \<or> (\<exists>fs m. json_body res = Some (JObj fs) \<and> map_of (rev fs) (js ''message'') = Some m
            \<and> truthy m \<and> (\<exists>err. to_string m = Inl err))"
proof (cases "json_body res")
  case None
  then show ?thesis
    by (simp add: error_branch_def get_message_def catch_fallback_message)
next
  case (Some v)
  then show ?thesis
    by (cases v)
      (auto simp: error_branch_def get_message_def or_else_def Let_def
        split: option.splits if_splits sum.splits)
qed

lemma success_branch_throws_iff:
  "(\<exists>err s'. success_branch res k s = Inl (err, s')) \<longleftrightarrow>
     blob_body res = None
     \<or> (\<exists>err. resolve_filename (fallback_filename s k) (content_disposition res) = Inl err)"
  by (auto simp: success_branch_def Let_def split: option.splits sum.splits)

lemma try_block_throws_iff:
  "(\<exists>err s'. try_block e s = Inl (err, s')) \<longleftrightarrow>
     \<not> incomplete (make_payload (form_entries s) (resolve_pdfKey s (pathname e)))
     \<and> (case fetch_result e of
          Rejected \<Rightarrow> True
        | Resolved res \<Rightarrow>
            if ok res
            then blob_body res = None
               \<or> (\<exists>err. resolve_filename (fallback_filename s (resolve_pdfKey s (pathname e)))
                           (content_disposition res) = Inl err)
            else json_body res = Some JNull
               \<or> (\<exists>fs m. json_body res = Some (JObj fs)
                     \<and> map_of (rev fs) (js ''message'') = Some m
                     \<and> truthy m \<and> (\<exists>err. to_string m = Inl err)))"
proof (cases "incomplete (make_payload (form_entries s) (resolve_pdfKey s (pathname e)))")
  case True
  then show ?thesis by (simp add: try_block_incomplete)
next
  case False
  show ?thesis
  proof (cases "fetch_result e")
    case Rejected
    with False show ?thesis by (simp add: try_block_complete)
  next
    case (Resolved res)
    with False show ?thesis
      using error_branch_throws_iff [of res "requested e s"]
        success_branch_throws_iff [of res "resolve_pdfKey s (pathname e)" "requested e s"]
      by (simp add: try_block_complete)
  qed
qed




subsection \<open>C7: the submit control\<close>

text \<open>
  Claim C7. Whatever path a submission takes (validation abort, server error, transport
  error or success), the submit control is not disabled when the handler has finished:
  a control that the handler found is enabled, and a form without one has none to
  disable.
\<close>

theorem submit_control_enabled:
  "submitBtn (on_submit e s) \<noteq> Some True \<and>
   submitBtn (on_submit e s) = map_option (\<lambda>old. False) (submitBtn s)"
  by (cases "submitBtn s") (simp_all add: on_submit_submitBtn)

subsection \<open>C8: after the download\<close>




subsection \<open>C9: the cached key\<close>

text \<open>
  Claim C9. When the trigger control has no \<open>data-pdf\<close> attribute and the key inferred
  from the path is not empty, the submission writes that key to the attribute, on
  every path through the handler, and every later submission of the same page view
  resolves the same key, whatever the path of the page is by then.
\<close>

theorem inferred_key_cached:
  assumes "data_pdf s = None" and "inferKeyFromPath (pathname e) \<noteq> []"
  shows "data_pdf (on_submit e s) = Some (inferKeyFromPath (pathname e))
       \<and> (\<forall>es (e' :: env). resolve_pdfKey (submissions es (on_submit e s)) (pathname e')
                    = inferKeyFromPath (pathname e))"
proof -
  from assms have k: "resolve_pdfKey s (pathname e) = inferKeyFromPath (pathname e)"
    by (simp add: resolve_pdfKey_def truthy_attr_def)
  with assms have d: "data_pdf (on_submit e s) = Some (inferKeyFromPath (pathname e))"
    by (simp add: on_submit_frame truthy_attr_def)
  with assms(2) have t: "truthy_attr (data_pdf (on_submit e s))"
    by (simp add: truthy_attr_def)
  have "resolve_pdfKey (submissions es (on_submit e s)) (pathname e')
          = inferKeyFromPath (pathname e)" for es and e' :: env
    using submissions_keep_key [OF t, of es] d assms(2)
    by (simp add: resolve_pdfKey_def truthy_attr_def or_empty_def)
  with d show ?thesis by simp
qed

theorem inferred_key_cached_witness:
  "data_pdf example_page = None
   \<and> inferKeyFromPath (pathname cutter_page) = js ''cutter-compactor''
   \<and> data_pdf (on_submit cutter_page example_page) = Some (js ''cutter-compactor'')
   \<and> resolve_pdfKey (submissions [offline, invalid_email] (on_submit cutter_page example_page))
        (js ''/page-other.html'') = js ''cutter-compactor''"
proof -
  have h1: "data_pdf example_page = None" by (simp add: example_page_def)
  have k: "inferKeyFromPath (pathname cutter_page) = js ''cutter-compactor''"
    using example_page_cutter_key
    by (simp add: cutter_page_def resolve_pdfKey_def truthy_attr_def example_page_def)
  then have h2: "inferKeyFromPath (pathname cutter_page) \<noteq> []" by (simp add: js_def)
  from inferred_key_cached [OF h1 h2] have
    c: "data_pdf (on_submit cutter_page example_page) = Some (inferKeyFromPath (pathname cutter_page))"
    and a: "\<forall>es (e' :: env). resolve_pdfKey (submissions es (on_submit cutter_page example_page)) (pathname e')
                    = inferKeyFromPath (pathname cutter_page)"
    by simp_all
  from a have "resolve_pdfKey (submissions [offline, invalid_email] (on_submit cutter_page example_page))
        (pathname \<lparr>pathname = js ''/page-other.html'', fetch_result = Rejected\<rparr>)
      = inferKeyFromPath (pathname cutter_page)"
    by (rule allE [THEN allE])
  with h1 k c show ?thesis by simp
qed

subsection \<open>C10: a form without the named controls\<close>

text \<open>
  Claim C10. When the form has no control named \<open>name\<close>, none named \<open>email\<close> or none
  named \<open>mobile\<close>, \<open>fd.get\<close> returns \<open>null\<close>, which is replaced by the empty string
  before it is converted and trimmed; the payload is incomplete, the \<open>try\<close> block
  returns from the validation branch without throwing, and nothing is requested or
  downloaded.
\<close>

theorem missing_control_aborts:
  assumes "js ''name'' \<notin> fst ` set (form_entries s)
         \<or> js ''email'' \<notin> fst ` set (form_entries s)
         \<or> js ''mobile'' \<notin> fst ` set (form_entries s)"
  shows "incomplete (make_payload (form_entries s) (resolve_pdfKey s (pathname e)))
       \<and> try_block e (before_try s) =
           Inr (set_disabled False (setMsg (js ''Please fill all required fields.'') True
                  (cache_pdfKey (resolve_pdfKey s (pathname e)) (before_try s))))
       \<and> requests (on_submit e s) = requests s
       \<and> downloads (on_submit e s) = downloads s"
proof -
  from assms have inc: "incomplete (make_payload (form_entries s) (resolve_pdfKey s (pathname e)))"
    by (auto simp: incomplete_iff read_field_missing)
  then have "incomplete (make_payload (form_entries (before_try s))
      (resolve_pdfKey (before_try s) (pathname e)))"
    by simp
  then have "try_block e (before_try s) =
           Inr (set_disabled False (setMsg (js ''Please fill all required fields.'') True
                  (cache_pdfKey (resolve_pdfKey s (pathname e)) (before_try s))))"
    using try_block_incomplete [of "before_try s" e] by simp
  with inc show ?thesis
    by (simp add: on_submit_def)
qed

theorem missing_control_aborts_witness:
  "js ''mobile'' \<notin> fst ` set (form_entries no_mobile_page)
   \<and> fd_get (form_entries no_mobile_page) (js ''mobile'') = None
   \<and> read_field (form_entries no_mobile_page) (js ''mobile'') = []
   \<and> requests (on_submit cutter_page no_mobile_page) = []
   \<and> downloads (on_submit cutter_page no_mobile_page) = []
   \<and> (\<exists>s'. try_block cutter_page (before_try no_mobile_page) = Inr s')"
proof -
  have m: "js ''mobile'' \<notin> fst ` set (form_entries no_mobile_page)"
    by (simp add: no_mobile_page_def example_page_def js_def)
  then have h: "js ''name'' \<notin> fst ` set (form_entries no_mobile_page)
         \<or> js ''email'' \<notin> fst ` set (form_entries no_mobile_page)
         \<or> js ''mobile'' \<notin> fst ` set (form_entries no_mobile_page)"
    by simp
  have g: "fd_get (form_entries no_mobile_page) (js ''mobile'') = None"
    using m by (simp add: fd_get_def map_of_eq_None_iff)
  from missing_control_aborts [OF h, of cutter_page] m g show ?thesis
    by (simp add: read_field_missing no_mobile_page_fields)
qed

end
